theory Spec2Isabelle
  imports Main "HOL-Library.Sublist"
begin

section \<open>Zendesk to Shopify order-note sync: a model of \<open>scipt.py\<close>\<close>

text \<open>
  The script reads the latest private comment of a Zendesk ticket, extracts a Shopify
  order name from its body, looks the order up and appends a formatted block to the
  order's note. The model follows the script function by function.
\<close>

subsection \<open>Python strings\<close>

text \<open>
  A Python \<open>str\<close> is a sequence of Unicode code points; the model has it as a list of
  numbers. \<open>lit\<close> turns a literal of this theory into such a string.
\<close>

type_synonym ustring = "nat list"

definition code_point :: "char \<Rightarrow> nat" where
  "code_point c = of_char c"

definition lit :: "string \<Rightarrow> ustring" where
  "lit s = map code_point s"

subsection \<open>What the platform supplies\<close>

text \<open>
  A \<open>datetime\<close> value; \<open>dt_utcoffset\<close> is the offset of its time zone east of UTC in
  microseconds, \<open>None\<close> for a naive value. An offset of zero is \<open>timezone.utc\<close> itself.
\<close>

record datetime =
  dt_year :: nat
  dt_month :: nat
  dt_day :: nat
  dt_hour :: nat
  dt_minute :: nat
  dt_second :: nat
  dt_microsecond :: nat
  dt_utcoffset :: "int option"

text \<open>
  The script runs on some Python 3 on some system, and these differ in what the code
  cannot see:
  \<^item> \<open>utcnow\<close> is the value of \<open>datetime.now(timezone.utc)\<close>;
  \<^item> \<open>local_gmtoff\<close> is the offset in seconds that the local time zone of the system has
    at a naive value (\<open>None\<close> when the system cannot tell and raises);
  \<^item> \<open>fromisoformat_more\<close> is what \<open>datetime.fromisoformat\<close> of the installed version
    returns on a string outside the format that all versions parse alike (\<open>None\<close> when it
    raises);
  \<^item> \<open>decimal_digit\<close> and \<open>alphanumeric\<close> are \<open>str.isdecimal\<close> and \<open>str.isalnum\<close> of the
    installed Unicode database, read from code point 256 on.
\<close>

record platform =
  utcnow :: datetime
  local_gmtoff :: "datetime \<Rightarrow> int option"
  fromisoformat_more :: "ustring \<Rightarrow> datetime option"
  decimal_digit :: "nat \<Rightarrow> bool"
  alphanumeric :: "nat \<Rightarrow> bool"

subsection \<open>Character classes of Python's \<open>str\<close> and \<open>re\<close>\<close>

text \<open>
  \<open>str.isspace\<close>, which decides what \<open>strip\<close> and \<open>rstrip\<close> remove: the ASCII whitespace
  and separators, NEL, the no-break space, and the Unicode spaces and line separators.
\<close>

definition is_space :: "nat \<Rightarrow> bool" where
  "is_space n =
     ((9 \<le> n \<and> n \<le> 13) \<or> (28 \<le> n \<and> n \<le> 32) \<or> n = 133 \<or> n = 160
      \<or> n = 5760 \<or> (8192 \<le> n \<and> n \<le> 8202) \<or> n = 8232 \<or> n = 8233 \<or> n = 8239
      \<or> n = 8287 \<or> n = 12288)"

text \<open>
  The class \<open>\d\<close> of a \<open>str\<close> pattern is every Unicode decimal digit: below 256 the ASCII
  digits, beyond that what the Unicode database says.
\<close>

definition is_digit :: "platform \<Rightarrow> nat \<Rightarrow> bool" where
  "is_digit pf n = (if n < 256 then 48 \<le> n \<and> n \<le> 57 else decimal_digit pf n)"

text \<open>
  The class \<open>\w\<close> of a \<open>str\<close> pattern: the alphanumeric characters, which include the
  decimal digits, and the underscore. Below 256 these are the ASCII letters and digits,
  the underscore, and the Latin-1 letters and numeric characters.
\<close>

definition is_word :: "platform \<Rightarrow> nat \<Rightarrow> bool" where
  "is_word pf n =
     (if n < 256
      then (48 \<le> n \<and> n \<le> 57) \<or> (65 \<le> n \<and> n \<le> 90) \<or> n = 95 \<or> (97 \<le> n \<and> n \<le> 122)
           \<or> n = 170 \<or> n = 178 \<or> n = 179 \<or> n = 181 \<or> n = 185 \<or> n = 186
           \<or> (188 \<le> n \<and> n \<le> 190)
           \<or> (192 \<le> n \<and> n \<noteq> 215 \<and> n \<noteq> 247)
      else decimal_digit pf n \<or> alphanumeric pf n)"

subsection \<open>\<open>str.strip\<close> and \<open>str.rstrip\<close>\<close>

definition lstrip :: "ustring \<Rightarrow> ustring" where
  "lstrip s = dropWhile is_space s"

definition rstrip :: "ustring \<Rightarrow> ustring" where
  "rstrip s = rev (dropWhile is_space (rev s))"

definition strip :: "ustring \<Rightarrow> ustring" where
  "strip s = rstrip (lstrip s)"

subsection \<open>\<open>extract_shopify_order_name\<close>\<close>

text \<open>
  The pattern is \<^verbatim>\<open>\bA\d{6}\b\<close>. \<^verbatim>\<open>\b\<close> holds at position \<open>i\<close> when exactly one of the
  characters before and at \<open>i\<close> is a word character; outside the text there is no word
  character.
\<close>

definition word_before :: "platform \<Rightarrow> ustring \<Rightarrow> nat \<Rightarrow> bool" where
  "word_before pf s i = (0 < i \<and> i \<le> length s \<and> is_word pf (s ! (i - 1)))"

definition word_at :: "platform \<Rightarrow> ustring \<Rightarrow> nat \<Rightarrow> bool" where
  "word_at pf s i = (i < length s \<and> is_word pf (s ! i))"

definition word_boundary :: "platform \<Rightarrow> ustring \<Rightarrow> nat \<Rightarrow> bool" where
  "word_boundary pf s i = (word_before pf s i \<noteq> word_at pf s i)"

text \<open>The pattern matches at start position \<open>i\<close>; a match spans seven characters.\<close>

definition pattern_matches_at :: "platform \<Rightarrow> ustring \<Rightarrow> nat \<Rightarrow> bool" where
  "pattern_matches_at pf s i =
     (word_boundary pf s i
      \<and> i + 7 \<le> length s
      \<and> s ! i = code_point (CHR ''A'')
      \<and> list_all (is_digit pf) (take 6 (drop (i + 1) s))
      \<and> word_boundary pf s (i + 7))"

text \<open>
  \<open>re.search\<close> tries the start positions \<open>0, 1, ..., len\<close> in this order and returns the
  match at the first position where the pattern matches.
\<close>

definition re_search :: "platform \<Rightarrow> ustring \<Rightarrow> nat option" where
  "re_search pf s = find (pattern_matches_at pf s) [0..<Suc (length s)]"

definition extract_shopify_order_name :: "platform \<Rightarrow> ustring \<Rightarrow> ustring option" where
  "extract_shopify_order_name pf note_text =
     (case re_search pf note_text of
        None \<Rightarrow> None
      | Some i \<Rightarrow> Some (take 7 (drop i note_text)))"

text \<open>
  The token as the specification words it: one uppercase ASCII letter, six decimal
  digits, not inside a longer alphanumeric run.
\<close>

definition is_upper :: "nat \<Rightarrow> bool" where
  "is_upper n = (65 \<le> n \<and> n \<le> 90)"

definition is_alnum :: "platform \<Rightarrow> nat \<Rightarrow> bool" where
  "is_alnum pf n = (is_word pf n \<and> n \<noteq> 95)"

definition spec_token_at :: "platform \<Rightarrow> ustring \<Rightarrow> nat \<Rightarrow> bool" where
  "spec_token_at pf s i =
     (i + 7 \<le> length s
      \<and> is_upper (s ! i)
      \<and> list_all (is_digit pf) (take 6 (drop (i + 1) s))
      \<and> (i = 0 \<or> \<not> is_alnum pf (s ! (i - 1)))
      \<and> (i + 7 = length s \<or> \<not> is_alnum pf (s ! (i + 7))))"

text \<open>
  The token the script looks for: the letter \<open>A\<close>, six decimal digits, with no word
  character (letter, digit or underscore) directly before or after.
\<close>

definition order_token_at :: "platform \<Rightarrow> ustring \<Rightarrow> nat \<Rightarrow> bool" where
  "order_token_at pf s i =
     (i + 7 \<le> length s
      \<and> s ! i = code_point (CHR ''A'')
      \<and> list_all (is_digit pf) (take 6 (drop (i + 1) s))
      \<and> (i = 0 \<or> \<not> is_word pf (s ! (i - 1)))
      \<and> (i + 7 = length s \<or> \<not> is_word pf (s ! (i + 7))))"

subsection \<open>Values, and \<open>str()\<close> as the f-strings apply it\<close>

datatype pyval = PNone | PInt int | PStr ustring

definition digit_char :: "nat \<Rightarrow> nat" where
  "digit_char d = 48 + d"

function show_nat :: "nat \<Rightarrow> ustring" where
  "show_nat n = (if n < 10 then [digit_char n] else show_nat (n div 10) @ [digit_char (n mod 10)])"
  by pat_completeness auto
termination
  by (relation "measure (\<lambda>n. n)") auto

declare show_nat.simps [simp del]

definition show_int :: "int \<Rightarrow> ustring" where
  "show_int i =
     (if i < 0 then code_point (CHR ''-'') # show_nat (nat (- i)) else show_nat (nat i))"

fun py_str :: "pyval \<Rightarrow> ustring" where
  "py_str PNone = lit ''None''"
| "py_str (PInt i) = show_int i"
| "py_str (PStr s) = s"

subsection \<open>The data exchanged with Zendesk and Shopify\<close>

text \<open>
  A decoded JSON value, as \<open>resp.json()\<close> returns it. A float is \<open>JFloat m e\<close> for the
  value \<open>m\<close> times two to the power \<open>e\<close>, or \<open>JNonFinite\<close> for NaN and the infinities.
\<close>

datatype json =
    JNull
  | JBool bool
  | JInt int
  | JFloat int int
  | JNonFinite
  | JStr ustring
  | JList "json list"
  | JDict "(ustring \<times> json) list"

text \<open>Python's truth value of such a value, which \<open>not\<close> negates.\<close>

fun truthy :: "json \<Rightarrow> bool" where
  "truthy JNull = False"
| "truthy (JBool b) = b"
| "truthy (JInt n) = (n \<noteq> 0)"
| "truthy (JFloat m e) = (m \<noteq> 0)"
| "truthy JNonFinite = True"
| "truthy (JStr s) = (s \<noteq> [])"
| "truthy (JList xs) = (xs \<noteq> [])"
| "truthy (JDict kvs) = (kvs \<noteq> [])"

text \<open>
  The JSON objects are records; a field read with \<open>.get\<close> is optional, \<open>None\<close> standing for
  a missing key. The \<open>public\<close> flag of a comment is any JSON value, since the script
  only asks for its truth value. For an order's note and a user's name \<open>None\<close> is also
  JSON null, which the script treats alike, and for \<open>created_at\<close> it is also a value that
  is not a string, which ends in the same handler. The script reads \<open>order["id"]\<close> without
  a default, so an order always has its id.
\<close>

record comment =
  c_public :: "json option"
  c_body :: "ustring option"
  c_author_id :: "int option"
  c_created_at :: "ustring option"

record zendesk_user =
  u_name :: "ustring option"

record zendesk_data =
  d_comments :: "comment list option"
  d_user :: "zendesk_user option"

record order =
  o_id :: int
  o_name :: "ustring option"
  o_note :: "ustring option"

record shopify_data =
  d_orders :: "order list option"

text \<open>A response with \<open>resp.ok\<close> false carries the status code and text; otherwise the JSON.\<close>

datatype 'a response = HttpFailed nat ustring | HttpOk 'a

type_synonym params = "(ustring \<times> ustring) list"

subsection \<open>Failures, output and external calls\<close>

text \<open>
  \<open>fail\<close> prints a diagnostic on stderr and exits with code 1; each call site of \<open>fail\<close>
  is a constructor of \<open>failure\<close>. An exception nobody catches ends the run as well.
\<close>

datatype failure =
    ZendeskApiFailed ustring ustring nat ustring
  | ShopifyApiFailed ustring ustring nat ustring
  | NoPrivateComments pyval
  | EmptyBody
  | OrderNameNotFound
  | OrderNotFound ustring

datatype exn = OverflowError | LocalTimeError

datatype abort = SysExit failure | Uncaught exn

text \<open>The lines the script prints, one constructor for each \<open>print\<close> with its arguments.\<close>

datatype message =
    Syncing pyval
  | LatestCommentBy ustring
  | DetectedOrderName ustring
  | FoundOrderId int
  | DryRunWouldUpdate
  | DryRunRule
  | DryRunNote ustring
  | UpdatedOrder "ustring option" int

text \<open>
  What a run does to the outside, in order: lines on stdout and stderr, and requests to
  the two services (method, path, JSON payload, query parameters). The payload of an
  order update is the pair of the order id and the new note.
\<close>

datatype event =
    Stdout message
  | Stderr failure
  | ZendeskCall ustring ustring params
  | ShopifyCall ustring ustring "(int \<times> ustring) option" params

type_synonym 'a io = "event list \<times> (abort + 'a)"

definition bind_io :: "'a io \<Rightarrow> ('a \<Rightarrow> 'b io) \<Rightarrow> 'b io" where
  "bind_io m f =
     (case m of
        (tr, Inl e) \<Rightarrow> (tr, Inl e)
      | (tr, Inr x) \<Rightarrow> (case f x of (tr', r) \<Rightarrow> (tr @ tr', r)))"

definition return_io :: "'a \<Rightarrow> 'a io" where
  "return_io x = ([], Inr x)"

definition print :: "message \<Rightarrow> unit io" where
  "print m = ([Stdout m], Inr ())"

definition fail :: "failure \<Rightarrow> 'a io" where
  "fail f = ([Stderr f], Inl (SysExit f))"

definition raise :: "exn \<Rightarrow> 'a io" where
  "raise e = ([], Inl (Uncaught e))"

subsection \<open>Dates and times: Python's \<open>datetime\<close>\<close>

definition is_leap :: "nat \<Rightarrow> bool" where
  "is_leap y = (y mod 4 = 0 \<and> (y mod 100 \<noteq> 0 \<or> y mod 400 = 0))"

definition days_in_month_table :: "nat list" where
  "days_in_month_table = [31, 28, 31, 30, 31, 30, 31, 31, 30, 31, 30, 31]"

definition days_before_month_table :: "nat list" where
  "days_before_month_table = [0, 31, 59, 90, 120, 151, 181, 212, 243, 273, 304, 334]"

definition days_before_year :: "nat \<Rightarrow> nat" where
  "days_before_year yr = (let y = yr - 1 in y * 365 + y div 4 - y div 100 + y div 400)"

definition days_in_month :: "nat \<Rightarrow> nat \<Rightarrow> nat" where
  "days_in_month y m = (if m = 2 \<and> is_leap y then 29 else days_in_month_table ! (m - 1))"

definition days_before_month :: "nat \<Rightarrow> nat \<Rightarrow> nat" where
  "days_before_month y m =
     days_before_month_table ! (m - 1) + (if 2 < m \<and> is_leap y then 1 else 0)"

definition ymd2ord :: "nat \<Rightarrow> nat \<Rightarrow> nat \<Rightarrow> nat" where
  "ymd2ord y m d = days_before_year y + days_before_month y m + d"

definition ord2ymd :: "nat \<Rightarrow> nat \<times> nat \<times> nat" where
  "ord2ymd ordinal =
     (let n0 = ordinal - 1;
          n400 = n0 div 146097; r400 = n0 mod 146097;
          n100 = r400 div 36524; r100 = r400 mod 36524;
          n4 = r100 div 1461; r4 = r100 mod 1461;
          n1 = r4 div 365; n = r4 mod 365;
          y = n400 * 400 + 1 + n100 * 100 + n4 * 4 + n1
      in if n1 = 4 \<or> n100 = 4 then (y - 1, 12, 31)
         else
           let leapyear = (n1 = 3 \<and> (n4 \<noteq> 24 \<or> n100 = 3));
               m = (n + 50) div 32;
               preceding = days_before_month_table ! (m - 1) + (if 2 < m \<and> leapyear then 1 else 0)
           in if n < preceding
              then (let m' = m - 1;
                        preceding' = preceding
                          - (days_in_month_table ! (m' - 1) + (if m' = 2 \<and> leapyear then 1 else 0))
                    in (y, m', n - preceding' + 1))
              else (y, m, n - preceding + 1))"

text \<open>
  The checks of the \<open>datetime\<close> and \<open>timezone\<close> constructors; a value failing them raises
  \<open>ValueError\<close>. The offset of a time zone lies strictly between minus and plus 24 hours.
\<close>

definition valid_fields :: "datetime \<Rightarrow> bool" where
  "valid_fields d =
     (1 \<le> dt_year d \<and> dt_year d \<le> 9999
      \<and> 1 \<le> dt_month d \<and> dt_month d \<le> 12
      \<and> 1 \<le> dt_day d \<and> dt_day d \<le> days_in_month (dt_year d) (dt_month d)
      \<and> dt_hour d \<le> 23 \<and> dt_minute d \<le> 59 \<and> dt_second d \<le> 59
      \<and> dt_microsecond d \<le> 999999
      \<and> (case dt_utcoffset d of
            None \<Rightarrow> True
          | Some off \<Rightarrow> - 86400000000 < off \<and> off < 86400000000))"

subsubsection \<open>\<open>datetime.fromisoformat\<close>\<close>

text \<open>
  Every Python since 3.7 parses the format \<^verbatim>\<open>YYYY-MM-DD*HH:MM:SS\<close>, with any one character
  for \<^verbatim>\<open>*\<close> and optionally followed by an offset \<^verbatim>\<open>+HH:MM\<close> or \<^verbatim>\<open>-HH:MM\<close>, to the same
  value; this is the format of Zendesk's timestamps once \<open>Z\<close> is replaced.
  \<open>fromisoformat_common\<close> is the parser on this format. Numbers are ASCII digits.
\<close>

definition is_ascii_digit :: "nat \<Rightarrow> bool" where
  "is_ascii_digit n = (48 \<le> n \<and> n \<le> 57)"

definition digits_value :: "ustring \<Rightarrow> nat" where
  "digits_value s = foldl (\<lambda>a c. 10 * a + (c - 48)) 0 s"

definition parse_int :: "ustring \<Rightarrow> nat option" where
  "parse_int s = (if s \<noteq> [] \<and> list_all is_ascii_digit s then Some (digits_value s) else None)"

definition slice :: "nat \<Rightarrow> nat \<Rightarrow> ustring \<Rightarrow> ustring" where
  "slice a b s = take (b - a) (drop a s)"

text \<open>The offset \<^verbatim>\<open>+HH:MM\<close> or \<^verbatim>\<open>-HH:MM\<close>, in microseconds.\<close>

definition parse_offset :: "ustring \<Rightarrow> int option" where
  "parse_offset t =
     (if length t \<noteq> 6 \<or> t ! 3 \<noteq> code_point (CHR '':'')
         \<or> (t ! 0 \<noteq> code_point (CHR ''+'') \<and> t ! 0 \<noteq> code_point (CHR ''-''))
      then None
      else case (parse_int (slice 1 3 t), parse_int (slice 4 6 t)) of
             (Some h, Some m) \<Rightarrow>
               if h \<le> 23 \<and> m \<le> 59
               then (let td = int ((h * 60 + m) * 60) * 1000000
                     in Some (if t ! 0 = code_point (CHR ''-'') then - td else td))
               else None
           | _ \<Rightarrow> None)"

definition fromisoformat_common :: "ustring \<Rightarrow> datetime option" where
  "fromisoformat_common s =
     (if (length s \<noteq> 19 \<and> length s \<noteq> 25)
         \<or> s ! 4 \<noteq> code_point (CHR ''-'') \<or> s ! 7 \<noteq> code_point (CHR ''-'')
         \<or> s ! 13 \<noteq> code_point (CHR '':'') \<or> s ! 16 \<noteq> code_point (CHR '':'')
      then None
      else case (parse_int (slice 0 4 s), parse_int (slice 5 7 s), parse_int (slice 8 10 s),
                 parse_int (slice 11 13 s), parse_int (slice 14 16 s),
                 parse_int (slice 17 19 s)) of
             (Some y, Some m, Some d, Some h, Some mi, Some sec) \<Rightarrow>
               (case (if length s = 19 then Some None
                      else map_option Some (parse_offset (drop 19 s))) of
                  None \<Rightarrow> None
                | Some tz \<Rightarrow>
                    (let dt = \<lparr>dt_year = y, dt_month = m, dt_day = d, dt_hour = h,
                                dt_minute = mi, dt_second = sec, dt_microsecond = 0,
                                dt_utcoffset = tz\<rparr>
                     in if valid_fields dt then Some dt else None))
           | _ \<Rightarrow> None)"

text \<open>
  \<open>datetime.fromisoformat\<close>: on the common format the common value, elsewhere what the
  installed version makes of the string, which is a valid \<open>datetime\<close> or an exception.
  \<open>None\<close> is any exception: the script catches them all.
\<close>

definition fromisoformat :: "platform \<Rightarrow> ustring \<Rightarrow> datetime option" where
  "fromisoformat pf date_string =
     (case fromisoformat_common date_string of
        Some d \<Rightarrow> Some d
      | None \<Rightarrow>
          (case fromisoformat_more pf date_string of
             None \<Rightarrow> None
           | Some d \<Rightarrow> if valid_fields d then Some d else None))"

subsubsection \<open>\<open>astimezone(timezone.utc)\<close> and \<open>strftime\<close>\<close>

text \<open>
  Subtracting an offset: the time of day in microseconds, less the offset, may leave
  the day by whole days; the resulting day must be one from 1 to 3652059 (9999-12-31),
  or else \<open>OverflowError\<close> is raised.
\<close>

definition minus_offset :: "datetime \<Rightarrow> int \<Rightarrow> exn + datetime" where
  "minus_offset d off =
     (let tod = ((int (dt_hour d) * 60 + int (dt_minute d)) * 60 + int (dt_second d)) * 1000000
                + int (dt_microsecond d) - off;
          days = int (ymd2ord (dt_year d) (dt_month d) (dt_day d)) + tod div 86400000000;
          us = tod mod 86400000000
      in if 0 < days \<and> days \<le> 3652059
         then (case ord2ymd (nat days) of
                 (y, m, dd) \<Rightarrow>
                   Inr \<lparr>dt_year = y, dt_month = m, dt_day = dd,
                        dt_hour = nat (us div 3600000000),
                        dt_minute = nat (us div 60000000 mod 60),
                        dt_second = nat (us div 1000000 mod 60),
                        dt_microsecond = nat (us mod 1000000),
                        dt_utcoffset = Some 0\<rparr>)
         else Inl OverflowError)"

text \<open>
  \<open>astimezone(timezone.utc)\<close>: a value that is in UTC already is returned as it is; an
  aware value is moved by its offset, a naive one by the local offset of the system.
\<close>

definition astimezone_utc :: "platform \<Rightarrow> datetime \<Rightarrow> exn + datetime" where
  "astimezone_utc pf d =
     (case dt_utcoffset d of
        None \<Rightarrow>
          (case local_gmtoff pf d of
             None \<Rightarrow> Inl LocalTimeError
           | Some secs \<Rightarrow> minus_offset d (secs * 1000000))
      | Some off \<Rightarrow> if off = 0 then Inr d else minus_offset d off)"

definition pad2 :: "nat \<Rightarrow> ustring" where
  "pad2 n = [digit_char (n div 10 mod 10), digit_char (n mod 10)]"

text \<open>
  \<^verbatim>\<open>strftime("%Y-%m-%d %H:%M UTC")\<close>. The C library prints \<^verbatim>\<open>%Y\<close> without padding, so a
  year below 1000 has fewer than four digits.
\<close>

definition strftime :: "datetime \<Rightarrow> ustring" where
  "strftime d =
     show_nat (dt_year d) @ lit ''-'' @ pad2 (dt_month d) @ lit ''-'' @ pad2 (dt_day d)
     @ lit '' '' @ pad2 (dt_hour d) @ lit '':'' @ pad2 (dt_minute d) @ lit '' UTC''"

subsection \<open>\<open>build_note_block\<close>\<close>

text \<open>\<^verbatim>\<open>created_at.replace("Z", "+00:00")\<close> replaces every \<open>Z\<close>.\<close>

definition replace_Z :: "ustring \<Rightarrow> ustring" where
  "replace_Z s = concat (map (\<lambda>c. if c = code_point (CHR ''Z'') then lit ''+00:00'' else [c]) s)"

text \<open>
  The \<open>try\<close> block: a missing \<open>created_at\<close> (\<open>None\<close> has no \<open>replace\<close>) and a string that
  \<open>fromisoformat\<close> rejects both end in the handler, which reads the clock.
\<close>

definition parse_created_at :: "platform \<Rightarrow> ustring option \<Rightarrow> datetime option" where
  "parse_created_at pf created_at =
     (case created_at of None \<Rightarrow> None | Some s \<Rightarrow> fromisoformat pf (replace_Z s))"

definition build_note_block ::
  "platform \<Rightarrow> pyval \<Rightarrow> ustring \<Rightarrow> ustring option \<Rightarrow> ustring \<Rightarrow> exn + ustring" where
  "build_note_block pf ticket_id agent_name created_at note_body =
     (let dt = (case parse_created_at pf created_at of None \<Rightarrow> utcnow pf | Some d \<Rightarrow> d)
      in case astimezone_utc pf dt of
           Inl e \<Rightarrow> Inl e
         | Inr u \<Rightarrow>
             (let date_str = strftime u;
                  header = lit ''#'' @ py_str ticket_id @ lit '' | '' @ agent_name @ lit '' | ''
                           @ date_str;
                  block = header @ lit ''\<newline>\<newline>'' @ strip note_body @ lit ''\<newline>\<newline>---\<newline>''
              in Inr block))"

subsection \<open>The requests\<close>

text \<open>The services answer a request with a response; the run does not see more of them.\<close>

record env =
  zendesk_server :: "ustring \<Rightarrow> ustring \<Rightarrow> params \<Rightarrow> zendesk_data response"
  shopify_server ::
    "ustring \<Rightarrow> ustring \<Rightarrow> (int \<times> ustring) option \<Rightarrow> params \<Rightarrow> shopify_data response"
  python :: platform

definition zendesk_request :: "env \<Rightarrow> ustring \<Rightarrow> ustring \<Rightarrow> params \<Rightarrow> zendesk_data io" where
  "zendesk_request env method path ps =
     bind_io ([ZendeskCall method path ps], Inr ())
       (\<lambda>_. case zendesk_server env method path ps of
               HttpFailed status txt \<Rightarrow> fail (ZendeskApiFailed method path status txt)
             | HttpOk data \<Rightarrow> return_io data)"

definition shopify_request ::
  "env \<Rightarrow> ustring \<Rightarrow> ustring \<Rightarrow> (int \<times> ustring) option \<Rightarrow> params \<Rightarrow> shopify_data io" where
  "shopify_request env method path json ps =
     bind_io ([ShopifyCall method path json ps], Inr ())
       (\<lambda>_. case shopify_server env method path json ps of
               HttpFailed status txt \<Rightarrow> fail (ShopifyApiFailed method path status txt)
             | HttpOk data \<Rightarrow> return_io data)"

subsection \<open>\<open>get_latest_private_comment\<close>\<close>

text \<open>\<^verbatim>\<open>c.get("public", True)\<close>\<close>

definition public_of :: "comment \<Rightarrow> json" where
  "public_of c = (case c_public c of None \<Rightarrow> JBool True | Some v \<Rightarrow> v)"

text \<open>
  The loop over the comments: the first comment whose \<open>public\<close> value, \<open>True\<close> when the
  key is missing, is not true in Python's sense. \<open>None\<close> is the script's \<open>(None, None)\<close>.
\<close>

fun first_private :: "comment list \<Rightarrow> (comment \<times> ustring option) option" where
  "first_private [] = None"
| "first_private (c # cs) =
     (if \<not> truthy (public_of c)
      then Some (c, c_created_at c)
      else first_private cs)"

text \<open>\<^verbatim>\<open>data.get("comments", [])\<close>\<close>

definition comments_of :: "zendesk_data \<Rightarrow> comment list" where
  "comments_of data = (case d_comments data of None \<Rightarrow> [] | Some cs \<Rightarrow> cs)"

definition comments_path :: "pyval \<Rightarrow> ustring" where
  "comments_path ticket_id = lit ''/tickets/'' @ py_str ticket_id @ lit ''/comments.json''"

definition get_latest_private_comment ::
  "env \<Rightarrow> pyval \<Rightarrow> (comment \<times> ustring option) option io" where
  "get_latest_private_comment env ticket_id =
     bind_io (zendesk_request env (lit ''GET'') (comments_path ticket_id)
                [(lit ''sort_order'', lit ''desc'')])
       (\<lambda>data. return_io (first_private (comments_of data)))"

subsection \<open>\<open>get_zendesk_user_name\<close> and \<open>find_shopify_order_by_name\<close>\<close>

definition get_zendesk_user_name :: "env \<Rightarrow> pyval \<Rightarrow> ustring io" where
  "get_zendesk_user_name env user_id =
     bind_io (zendesk_request env (lit ''GET'') (lit ''/users/'' @ py_str user_id @ lit ''.json'') [])
       (\<lambda>data. return_io
          (case (case d_user data of None \<Rightarrow> None | Some u \<Rightarrow> u_name u) of
             None \<Rightarrow> lit ''User '' @ py_str user_id
           | Some n \<Rightarrow> if n = [] then lit ''User '' @ py_str user_id else n))"

definition find_shopify_order_by_name :: "env \<Rightarrow> ustring \<Rightarrow> order option io" where
  "find_shopify_order_by_name env order_name =
     bind_io (shopify_request env (lit ''GET'') (lit ''/orders.json'') None
                [(lit ''name'', order_name)])
       (\<lambda>data. return_io
          (case (case d_orders data of None \<Rightarrow> [] | Some os \<Rightarrow> os) of
             [] \<Rightarrow> None
           | ord # _ \<Rightarrow> Some ord))"

subsection \<open>\<open>append_note_to_shopify_order\<close>\<close>

text \<open>The value of \<open>new_note\<close> that the function computes before it prints or writes.\<close>

definition existing_note :: "order \<Rightarrow> ustring" where
  "existing_note ord = (case o_note ord of None \<Rightarrow> [] | Some n \<Rightarrow> n)"

definition new_note :: "order \<Rightarrow> ustring \<Rightarrow> ustring" where
  "new_note ord note_block =
     (if strip (existing_note ord) \<noteq> []
      then rstrip (existing_note ord) @ lit ''\<newline>\<newline>'' @ note_block
      else note_block)"

definition order_path :: "int \<Rightarrow> ustring" where
  "order_path order_id = lit ''/orders/'' @ show_int order_id @ lit ''.json''"

definition append_note_to_shopify_order :: "env \<Rightarrow> order \<Rightarrow> ustring \<Rightarrow> bool \<Rightarrow> unit io" where
  "append_note_to_shopify_order env ord note_block dry_run =
     (let order_id = o_id ord;
          note = new_note ord note_block
      in if dry_run
         then ([Stdout DryRunWouldUpdate, Stdout DryRunRule, Stdout (DryRunNote note),
                Stdout DryRunRule], Inr ())
         else bind_io (shopify_request env (lit ''PUT'') (order_path order_id)
                         (Some (order_id, note)) [])
                (\<lambda>_. print (UpdatedOrder (o_name ord) order_id)))"

subsection \<open>\<open>sync_ticket_to_shopify_note\<close>\<close>

definition author_of :: "comment \<Rightarrow> pyval" where
  "author_of c = (case c_author_id c of None \<Rightarrow> PNone | Some a \<Rightarrow> PInt a)"

text \<open>\<^verbatim>\<open>comment.get("body", "")\<close>\<close>

definition body_of :: "comment \<Rightarrow> ustring" where
  "body_of c = (case c_body c of None \<Rightarrow> [] | Some b \<Rightarrow> b)"

definition sync_ticket_to_shopify_note :: "env \<Rightarrow> pyval \<Rightarrow> bool \<Rightarrow> unit io" where
  "sync_ticket_to_shopify_note env ticket_id dry_run =
     bind_io (print (Syncing ticket_id)) (\<lambda>_.
     bind_io (get_latest_private_comment env ticket_id) (\<lambda>found.
       case found of
         None \<Rightarrow> fail (NoPrivateComments ticket_id)
       | Some (c, created_at) \<Rightarrow>
           (let note_body = strip (body_of c)
            in if note_body = [] then fail EmptyBody
               else
                 bind_io (get_zendesk_user_name env (author_of c)) (\<lambda>agent_name.
                 bind_io (print (LatestCommentBy agent_name)) (\<lambda>_.
                   case extract_shopify_order_name (python env) note_body of
                     None \<Rightarrow> fail OrderNameNotFound
                   | Some order_name \<Rightarrow>
                       bind_io (print (DetectedOrderName order_name)) (\<lambda>_.
                       bind_io (find_shopify_order_by_name env order_name) (\<lambda>looked_up.
                         case looked_up of
                           None \<Rightarrow> fail (OrderNotFound order_name)
                         | Some ord \<Rightarrow>
                             bind_io (print (FoundOrderId (o_id ord))) (\<lambda>_.
                               case build_note_block (python env) ticket_id agent_name
                                      created_at note_body of
                                 Inl e \<Rightarrow> raise e
                               | Inr note_block \<Rightarrow>
                                   append_note_to_shopify_order env ord note_block dry_run))))))))"

text \<open>The requests of a trace that write to Shopify.\<close>

fun is_write :: "event \<Rightarrow> bool" where
  "is_write (ShopifyCall method path json ps) = (method = lit ''PUT'')"
| "is_write _ = False"

definition shopify_writes :: "event list \<Rightarrow> event list" where
  "shopify_writes tr = filter is_write tr"

text \<open>
  A run may end after its write only by the failure of the write itself; every other
  abort comes before any write.
\<close>

fun write_failed :: "abort \<Rightarrow> bool" where
  "write_failed (SysExit (ShopifyApiFailed method path st tx)) = (method = lit ''PUT'')"
| "write_failed _ = False"

definition no_write_before_abort :: "'a io \<Rightarrow> bool" where
  "no_write_before_abort r =
     (case snd r of Inr _ \<Rightarrow> True | Inl a \<Rightarrow> write_failed a \<or> shopify_writes (fst r) = [])"

subsection \<open>Notions of the specification\<close>

text \<open>A text that is empty or consists of whitespace only.\<close>

definition all_whitespace :: "ustring \<Rightarrow> bool" where
  "all_whitespace s = list_all is_space s"

text \<open>
  \<open>r\<close> is \<open>s\<close> with its trailing whitespace stripped: \<open>s\<close> is \<open>r\<close> followed by whitespace
  only, and \<open>r\<close> does not end in whitespace.
\<close>

definition trailing_whitespace_stripped :: "ustring \<Rightarrow> ustring \<Rightarrow> bool" where
  "trailing_whitespace_stripped s r =
     (take (length r) s = r \<and> list_all is_space (drop (length r) s)
      \<and> (r = [] \<or> \<not> is_space (last r)))"




subsection \<open>Example inputs\<close>

text \<open>
  A platform whose clock shows 2024-06-09 08:05:30, whose local time is UTC, whose Python
  parses nothing beyond the common format, and whose Unicode database knows the
  Arabic-Indic digits and the Arabic letters.
\<close>

definition example_platform :: platform where
  "example_platform =
     \<lparr>utcnow = \<lparr>dt_year = 2024, dt_month = 6, dt_day = 9, dt_hour = 8, dt_minute = 5,
                 dt_second = 30, dt_microsecond = 0, dt_utcoffset = Some 0\<rparr>,
      local_gmtoff = (\<lambda>_. Some 0),
      fromisoformat_more = (\<lambda>_. None),
      decimal_digit = (\<lambda>n. 1632 \<le> n \<and> n \<le> 1641),
      alphanumeric = (\<lambda>n. (1568 \<le> n \<and> n \<le> 1610) \<or> (1632 \<le> n \<and> n \<le> 1641))\<rparr>"

definition public_comment :: comment where
  "public_comment =
     \<lparr>c_public = Some (JBool True), c_body = Some (lit ''Thanks for reaching out''),
      c_author_id = Some 7, c_created_at = Some (lit ''2024-03-02T10:00:00Z'')\<rparr>"

definition unflagged_comment :: comment where
  "unflagged_comment =
     \<lparr>c_public = None, c_body = Some (lit ''Order A111111''), c_author_id = Some 7,
      c_created_at = Some (lit ''2024-03-02T09:00:00Z'')\<rparr>"

definition private_comment :: comment where
  "private_comment =
     \<lparr>c_public = Some (JBool False), c_body = Some (lit ''Refund issued for A273302''),
      c_author_id = Some 8, c_created_at = Some (lit ''2024-03-01T15:04:00Z'')\<rparr>"


definition blank_private_comment :: comment where
  "blank_private_comment =
     \<lparr>c_public = Some (JBool False), c_body = Some (lit '' \<newline> ''), c_author_id = Some 8,
      c_created_at = Some (lit ''2024-03-01T15:04:00Z'')\<rparr>"

definition null_flag_comment :: comment where
  "null_flag_comment =
     \<lparr>c_public = Some JNull, c_body = Some (lit ''Call the customer''), c_author_id = Some 8,
      c_created_at = Some (lit ''2024-03-03T08:00:00Z'')\<rparr>"

definition example_order :: order where
  "example_order =
     \<lparr>o_id = 42, o_name = Some (lit ''A273302''), o_note = Some (lit ''Prior note\<newline>'')\<rparr>"

text \<open>
  A Zendesk that answers every request with the given comments and a user named Dana,
  and a Shopify that answers every request with the given orders.
\<close>

definition example_env :: "comment list \<Rightarrow> order list \<Rightarrow> env" where
  "example_env cs os =
     \<lparr>zendesk_server = (\<lambda>method path ps.
        HttpOk \<lparr>d_comments = Some cs, d_user = Some \<lparr>u_name = Some (lit ''Dana'')\<rparr>\<rparr>),
      shopify_server = (\<lambda>method path json ps. HttpOk \<lparr>d_orders = Some os\<rparr>),
      python = example_platform\<rparr>"

section \<open>Properties\<close>

lemma is_digit_is_word: "is_digit pf c \<Longrightarrow> is_word pf c"
  by (auto simp: is_digit_def is_word_def split: if_splits)

lemma is_word_A: "is_word pf (code_point (CHR ''A''))"
  by (simp add: is_word_def code_point_def)

subsection \<open>The order name is the leftmost standalone token\<close>

lemma digit_run_nth:
  assumes "list_all (is_digit pf) (take 6 (drop (i + 1) s))" "i + 7 \<le> length s" "k < 6"
  shows "is_digit pf (s ! (i + 1 + k))"
proof -
  have "k < length (take 6 (drop (i + 1) s))" using assms by simp
  then have "is_digit pf (take 6 (drop (i + 1) s) ! k)"
    using assms(1) by (simp add: list_all_length)
  then show ?thesis using assms by simp
qed

lemma pattern_matches_at_iff: "pattern_matches_at pf s i \<longleftrightarrow> order_token_at pf s i"
proof (cases "i + 7 \<le> length s \<and> s ! i = code_point (CHR ''A'')
              \<and> list_all (is_digit pf) (take 6 (drop (i + 1) s))")
  case False
  then show ?thesis by (auto simp: pattern_matches_at_def order_token_at_def)
next
  case True
  then have len: "i + 7 \<le> length s" and a: "s ! i = code_point (CHR ''A'')"
    and d: "list_all (is_digit pf) (take 6 (drop (i + 1) s))" by auto
  have "is_digit pf (s ! (i + 1 + 5))" using digit_run_nth [OF d len, of 5] by simp
  moreover have "i + 1 + 5 = i + 6" by simp
  ultimately have "is_digit pf (s ! (i + 6))" by metis
  then have w6: "is_word pf (s ! (i + 6))" by (rule is_digit_is_word)
  have wa: "word_at pf s i" using len a is_word_A [of pf] by (simp add: word_at_def)
  have wb: "word_before pf s (i + 7)" using len w6 by (simp add: word_before_def add.commute)
  have b1: "word_boundary pf s i \<longleftrightarrow> (i = 0 \<or> \<not> is_word pf (s ! (i - 1)))"
    using wa len by (auto simp: word_boundary_def word_before_def)
  have b2: "word_boundary pf s (i + 7) \<longleftrightarrow> (i + 7 = length s \<or> \<not> is_word pf (s ! (i + 7)))"
    using wb len by (auto simp: word_boundary_def word_at_def)
  show ?thesis using True b1 b2 by (simp add: pattern_matches_at_def order_token_at_def)
qed

lemma order_token_at_bound: "order_token_at pf s i \<Longrightarrow> i < Suc (length s)"
  by (simp add: order_token_at_def)

lemma re_search_None_iff: "re_search pf s = None \<longleftrightarrow> (\<forall>i. \<not> order_token_at pf s i)"
proof -
  have "re_search pf s = None \<longleftrightarrow> (\<forall>i < Suc (length s). \<not> order_token_at pf s i)"
    unfolding re_search_def find_None_iff pattern_matches_at_iff set_upt by auto
  then show ?thesis using order_token_at_bound by blast
qed

lemma re_search_Some_iff:
  "re_search pf s = Some i \<longleftrightarrow> order_token_at pf s i \<and> (\<forall>j<i. \<not> order_token_at pf s j)"
proof -
  have "re_search pf s = Some i \<longleftrightarrow>
        (i < Suc (length s) \<and> order_token_at pf s i \<and> (\<forall>j<i. \<not> order_token_at pf s j))"
    unfolding re_search_def find_Some_iff pattern_matches_at_iff
    by (auto simp del: upt_Suc)
  then show ?thesis using order_token_at_bound by blast
qed

text \<open>
  Claim C1, as the script has it: for every text of Unicode code points and every
  Unicode database, \<open>extract_shopify_order_name\<close> returns the leftmost token made of the
  letter \<open>A\<close> and exactly six decimal digits (of any script, as \<open>\d\<close> has them) that has no
  word character (letter, digit or underscore, as \<open>\w\<close> has them) directly before or after
  it, and returns \<open>None\<close> exactly when the text has no such token.
\<close>

theorem extract_order_name_leftmost_token:
  "(extract_shopify_order_name pf s = None \<longleftrightarrow> (\<forall>i. \<not> order_token_at pf s i)) \<and>
   (\<forall>t. extract_shopify_order_name pf s = Some t \<longleftrightarrow>
      (\<exists>i. order_token_at pf s i \<and> (\<forall>j<i. \<not> order_token_at pf s j)
           \<and> t = take 7 (drop i s)))"
proof -
  have n: "extract_shopify_order_name pf s = None \<longleftrightarrow> re_search pf s = None"
    by (simp add: extract_shopify_order_name_def split: option.splits)
  have s: "extract_shopify_order_name pf s = Some t \<longleftrightarrow>
        (\<exists>i. re_search pf s = Some i \<and> t = take 7 (drop i s))" for t
    by (auto simp: extract_shopify_order_name_def split: option.splits)
  show ?thesis unfolding n s re_search_None_iff re_search_Some_iff by blast
qed

lemma example_classes:
  "is_digit example_platform n \<longleftrightarrow> (48 \<le> n \<and> n \<le> 57) \<or> (1632 \<le> n \<and> n \<le> 1641)"
  by (auto simp: is_digit_def example_platform_def)

text \<open>
  The theorem at the text \<open>x A123456 A654321\<close>, where the token at position 2 is the
  leftmost one and is the result; at an Arabic letter followed by a space and the letter
  \<open>A\<close> with the six Arabic-Indic digits one to six, which is returned as it is; and at
  \<open>A123456\<close> directly after an Arabic letter, where there is no token.
\<close>

theorem extract_order_name_leftmost_token_witness:
  "order_token_at example_platform (lit ''x A123456 A654321'') 2
   \<and> \<not> order_token_at example_platform (lit ''x A123456 A654321'') 0
   \<and> \<not> order_token_at example_platform (lit ''x A123456 A654321'') 1
   \<and> extract_shopify_order_name example_platform (lit ''x A123456 A654321'') = Some (lit ''A123456'')
   \<and> extract_shopify_order_name example_platform
        [1576, 32, 65, 1633, 1634, 1635, 1636, 1637, 1638]
       = Some [65, 1633, 1634, 1635, 1636, 1637, 1638]
   \<and> extract_shopify_order_name example_platform [1576, 65, 49, 50, 51, 52, 53, 54] = None"
proof -
  let ?s = "lit ''x A123456 A654321''"
  let ?u = "[1576, 32, 65, 1633, 1634, 1635, 1636, 1637, 1638] :: nat list"
  have t: "order_token_at example_platform ?s 2"
    by (simp add: order_token_at_def lit_def example_classes is_word_def code_point_def)
  have n: "\<not> order_token_at example_platform ?s 0" "\<not> order_token_at example_platform ?s 1"
    by (simp_all add: order_token_at_def lit_def code_point_def)
  then have l: "\<forall>j<2. \<not> order_token_at example_platform ?s j"
    by (auto simp: less_2_cases_iff)
  have 1: "extract_shopify_order_name example_platform ?s = Some (take 7 (drop 2 ?s))"
    using extract_order_name_leftmost_token [of example_platform ?s] t l by blast
  have tu: "order_token_at example_platform ?u 2"
    by (simp add: order_token_at_def example_classes is_word_def code_point_def)
  have nu: "\<not> order_token_at example_platform ?u 0" "\<not> order_token_at example_platform ?u 1"
    by (simp_all add: order_token_at_def code_point_def)
  then have lu: "\<forall>j<2. \<not> order_token_at example_platform ?u j"
    by (auto simp: less_2_cases_iff)
  have 2: "extract_shopify_order_name example_platform ?u = Some (take 7 (drop 2 ?u))"
    using extract_order_name_leftmost_token [of example_platform ?u] tu lu by blast
  let ?v = "[1576, 65, 49, 50, 51, 52, 53, 54] :: nat list"
  have w: "is_word example_platform 1576" by (simp add: is_word_def example_platform_def)
  have "\<not> order_token_at example_platform ?v i" for i
  proof (cases i)
    case 0
    then show ?thesis by (simp add: order_token_at_def code_point_def)
  next
    case (Suc k)
    then show ?thesis using w
      by (cases k) (simp_all add: order_token_at_def code_point_def)
  qed
  then have 3: "extract_shopify_order_name example_platform ?v = None"
    using extract_order_name_leftmost_token [of example_platform ?v] by blast
  show ?thesis using t n 1 2 3 by (simp add: lit_def)
qed

text \<open>
  Claim C1 as the specification words it fails: \<open>B123456\<close> is an uppercase letter with six
  digits standing alone, and \<open>A123456\<close> before an underscore is not inside a longer
  alphanumeric run, yet the script finds no order name in either text.
\<close>

theorem extract_order_name_spec_token_counterexample:
  "spec_token_at example_platform (lit ''B123456'') 0
   \<and> extract_shopify_order_name example_platform (lit ''B123456'') = None
   \<and> spec_token_at example_platform (lit ''A123456_'') 0
   \<and> extract_shopify_order_name example_platform (lit ''A123456_'') = None"
proof -
  have 1: "spec_token_at example_platform (lit ''B123456'') 0"
    by (simp add: spec_token_at_def lit_def is_upper_def example_classes code_point_def)
  have "\<not> order_token_at example_platform (lit ''B123456'') i" for i
    by (cases i) (simp_all add: order_token_at_def lit_def code_point_def)
  then have 2: "re_search example_platform (lit ''B123456'') = None"
    by (simp add: re_search_None_iff)
  have 3: "spec_token_at example_platform (lit ''A123456_'') 0"
    by (simp add: spec_token_at_def lit_def is_upper_def example_classes is_alnum_def
        code_point_def)
  have u: "is_word example_platform 95" by (simp add: is_word_def)
  have "\<not> order_token_at example_platform (lit ''A123456_'') i" for i
  proof (cases i)
    case 0
    then show ?thesis using u by (simp add: order_token_at_def lit_def code_point_def)
  next
    case (Suc k)
    then show ?thesis
      by (cases k) (simp_all add: order_token_at_def lit_def code_point_def)
  qed
  then have 4: "re_search example_platform (lit ''A123456_'') = None"
    by (simp add: re_search_None_iff)
  show ?thesis using 1 2 3 4 by (simp add: extract_shopify_order_name_def)
qed

subsection \<open>Merging the block into the note\<close>

lemma rstrip_Nil_iff: "rstrip s = [] \<longleftrightarrow> all_whitespace s"
  by (auto simp: rstrip_def all_whitespace_def dropWhile_eq_Nil_conv list_all_iff)

lemma strip_Nil_iff: "strip s = [] \<longleftrightarrow> all_whitespace s"
proof -
  have "all_whitespace (dropWhile is_space s) \<longleftrightarrow> all_whitespace s"
  proof
    assume a: "all_whitespace (dropWhile is_space s)"
    have "set s = set (takeWhile is_space s) \<union> set (dropWhile is_space s)"
      by (metis set_append takeWhile_dropWhile_id)
    then show "all_whitespace s"
      using a by (auto simp: all_whitespace_def list_all_iff dest: set_takeWhileD)
  next
    assume "all_whitespace s"
    then show "all_whitespace (dropWhile is_space s)"
      by (auto simp: all_whitespace_def list_all_iff dest: set_dropWhileD)
  qed
  then show ?thesis by (simp add: strip_def lstrip_def rstrip_Nil_iff)
qed

lemma rstrip_decompose: "s = rstrip s @ rev (takeWhile is_space (rev s))"
proof -
  have "rev (takeWhile is_space (rev s) @ dropWhile is_space (rev s)) = rev (rev s)"
    by (simp only: takeWhile_dropWhile_id)
  then have "rev (dropWhile is_space (rev s)) @ rev (takeWhile is_space (rev s)) = s"
    by (simp only: rev_append rev_rev_ident)
  then show ?thesis by (simp add: rstrip_def)
qed

lemma rstrip_last: "rstrip s \<noteq> [] \<Longrightarrow> \<not> is_space (last (rstrip s))"
  by (simp add: rstrip_def last_rev hd_dropWhile)

lemma rstrip_stripped: "trailing_whitespace_stripped s (rstrip s)"
proof -
  let ?ws = "rev (takeWhile is_space (rev s))"
  have d: "s = rstrip s @ ?ws" by (rule rstrip_decompose)
  have t: "take (length (rstrip s)) s = rstrip s"
    by (metis d append_eq_conv_conj)
  have dr: "drop (length (rstrip s)) s = ?ws"
    by (metis d append_eq_conv_conj)
  have w: "list_all is_space ?ws"
    by (auto simp: list_all_iff dest: set_takeWhileD)
  show ?thesis
    using t dr w rstrip_last [of s] by (auto simp: trailing_whitespace_stripped_def)
qed

lemma rstrip_id: "s \<noteq> [] \<Longrightarrow> \<not> is_space (last s) \<Longrightarrow> rstrip s = s"
proof -
  assume a: "s \<noteq> []" "\<not> is_space (last s)"
  then have "rev s \<noteq> []" "\<not> is_space (hd (rev s))" by (simp_all add: hd_rev)
  then have "dropWhile is_space (rev s) = rev s" by (cases "rev s") auto
  then show ?thesis by (simp add: rstrip_def)
qed

lemma prior_note_newline:
  "strip (lit ''Prior note\<newline>'') = lit ''Prior note''"
  "rstrip (lit ''Prior note\<newline>'') = lit ''Prior note''"
  "\<not> all_whitespace (lit ''Prior note\<newline>'')"
  by (simp_all add: strip_def lstrip_def rstrip_def all_whitespace_def is_space_def lit_def
      code_point_def)

lemma prior_note_space:
  "rstrip (lit ''Prior note '') = lit ''Prior note''"
  "\<not> all_whitespace (lit ''Prior note '')"
  by (simp_all add: rstrip_def all_whitespace_def is_space_def lit_def code_point_def)

text \<open>
  Claim C3: when the existing note is empty or whitespace only, the new note is the
  block; otherwise it is the existing note with its trailing whitespace stripped, the two
  characters of one blank line, and the block. In particular the note \<open>""\<close> gives the
  block, and the note \<open>"Prior note\n"\<close> gives \<open>"Prior note\n\n"\<close> followed by the block.
\<close>

theorem new_note_merge:
  "(all_whitespace (existing_note ord) \<longrightarrow> new_note ord block = block)
   \<and> (\<not> all_whitespace (existing_note ord) \<longrightarrow>
        trailing_whitespace_stripped (existing_note ord) (rstrip (existing_note ord))
        \<and> new_note ord block = rstrip (existing_note ord) @ lit ''\<newline>\<newline>'' @ block)
   \<and> (o_note ord = Some [] \<longrightarrow> new_note ord block = block)
   \<and> (o_note ord = Some (lit ''Prior note\<newline>'') \<longrightarrow>
        new_note ord block = lit ''Prior note\<newline>\<newline>'' @ block)"
proof -
  have 1: "all_whitespace (existing_note ord) \<longrightarrow> new_note ord block = block"
    by (simp add: new_note_def strip_Nil_iff)
  have 2: "\<not> all_whitespace (existing_note ord) \<longrightarrow>
        trailing_whitespace_stripped (existing_note ord) (rstrip (existing_note ord))
        \<and> new_note ord block = rstrip (existing_note ord) @ lit ''\<newline>\<newline>'' @ block"
    by (simp add: new_note_def strip_Nil_iff rstrip_stripped)
  have 3: "o_note ord = Some [] \<longrightarrow> new_note ord block = block"
    by (simp add: new_note_def existing_note_def strip_def lstrip_def rstrip_def)
  have 4: "o_note ord = Some (lit ''Prior note\<newline>'') \<longrightarrow>
        new_note ord block = lit ''Prior note\<newline>\<newline>'' @ block"
    by (simp add: new_note_def existing_note_def strip_def lstrip_def rstrip_def
        is_space_def lit_def code_point_def)
  show ?thesis using 1 2 3 4 by blast
qed

text \<open>The theorem at an order with the note \<open>"Prior note\n"\<close> and at one with a blank note.\<close>

theorem new_note_merge_witness:
  "\<not> all_whitespace (existing_note example_order)
   \<and> new_note example_order (lit ''B'') = lit ''Prior note\<newline>\<newline>B''
   \<and> trailing_whitespace_stripped (lit ''Prior note\<newline>'') (lit ''Prior note'')
   \<and> all_whitespace (existing_note \<lparr>o_id = 1, o_name = None, o_note = Some (lit '' \<newline>'')\<rparr>)
   \<and> new_note \<lparr>o_id = 1, o_name = None, o_note = Some (lit '' \<newline>'')\<rparr> (lit ''B'') = lit ''B''"
proof -
  have e: "existing_note example_order = lit ''Prior note\<newline>''"
    by (simp add: existing_note_def example_order_def)
  have n: "\<not> all_whitespace (existing_note example_order)"
    unfolding e by (rule prior_note_newline)
  have w: "all_whitespace (existing_note \<lparr>o_id = 1, o_name = None, o_note = Some (lit '' \<newline>'')\<rparr>)"
    by (simp add: existing_note_def all_whitespace_def is_space_def lit_def code_point_def)
  have a: "lit ''Prior note'' @ lit ''\<newline>\<newline>'' @ lit ''B'' = lit ''Prior note\<newline>\<newline>B''"
    by (simp add: lit_def)
  show ?thesis
    using new_note_merge [of example_order "lit ''B''"]
      new_note_merge [of "\<lparr>o_id = 1, o_name = None, o_note = Some (lit '' \<newline>'')\<rparr>" "lit ''B''"] n w
    by (simp add: e prior_note_newline a)
qed

text \<open>
  Claim C4, as the script has it: when the existing note is not empty or whitespace only,
  the new note starts with the existing note less its trailing whitespace, followed by
  one blank line and the block; an existing note that does not end in whitespace is kept
  character for character.
\<close>

theorem new_note_keeps_stripped_prefix:
  assumes "\<not> all_whitespace (existing_note ord)"
  shows "prefix (rstrip (existing_note ord)) (new_note ord block)
         \<and> new_note ord block = rstrip (existing_note ord) @ lit ''\<newline>\<newline>'' @ block
         \<and> trailing_whitespace_stripped (existing_note ord) (rstrip (existing_note ord))
         \<and> (\<not> is_space (last (existing_note ord)) \<longrightarrow>
              prefix (existing_note ord) (new_note ord block))"
proof -
  have ne: "existing_note ord \<noteq> []" using assms by (auto simp: all_whitespace_def)
  have n: "new_note ord block = rstrip (existing_note ord) @ lit ''\<newline>\<newline>'' @ block"
    using assms by (simp add: new_note_def strip_Nil_iff)
  have p: "prefix (rstrip (existing_note ord)) (new_note ord block)"
    unfolding n by simp
  have v: "\<not> is_space (last (existing_note ord)) \<longrightarrow>
             prefix (existing_note ord) (new_note ord block)"
    using ne p by (auto simp: rstrip_id)
  show ?thesis using n p v rstrip_stripped by blast
qed

text \<open>The theorem at the note \<open>"Prior note "\<close>, which ends in a space.\<close>

theorem new_note_keeps_stripped_prefix_witness:
  "\<not> all_whitespace (existing_note \<lparr>o_id = 1, o_name = None, o_note = Some (lit ''Prior note '')\<rparr>)
   \<and> prefix (lit ''Prior note'')
        (new_note \<lparr>o_id = 1, o_name = None, o_note = Some (lit ''Prior note '')\<rparr> (lit ''B''))
   \<and> new_note \<lparr>o_id = 1, o_name = None, o_note = Some (lit ''Prior note '')\<rparr> (lit ''B'')
       = lit ''Prior note\<newline>\<newline>B''"
proof -
  let ?o = "\<lparr>o_id = 1, o_name = None, o_note = Some (lit ''Prior note '')\<rparr>"
  have e: "existing_note ?o = lit ''Prior note ''" by (simp add: existing_note_def)
  have n: "\<not> all_whitespace (existing_note ?o)"
    unfolding e by (rule prior_note_space)
  have a: "lit ''Prior note'' @ lit ''\<newline>\<newline>'' @ lit ''B'' = lit ''Prior note\<newline>\<newline>B''"
    by (simp add: lit_def)
  have "new_note ?o (lit ''B'') = rstrip (existing_note ?o) @ lit ''\<newline>\<newline>'' @ lit ''B''"
    using new_note_keeps_stripped_prefix [OF n, of "lit ''B''"] by blast
  then have v: "new_note ?o (lit ''B'') = lit ''Prior note\<newline>\<newline>B''"
    by (simp add: e prior_note_space a)
  have p: "prefix (lit ''Prior note'') (lit ''Prior note\<newline>\<newline>B'')"
    by (simp add: lit_def)
  show ?thesis using n v p by simp
qed

text \<open>
  Claim C4 as the specification words it fails: the note \<open>"Prior note "\<close> is not a prefix
  of the new note, which has lost the trailing space.
\<close>

theorem new_note_verbatim_prefix_counterexample:
  "\<not> all_whitespace (existing_note \<lparr>o_id = 1, o_name = None, o_note = Some (lit ''Prior note '')\<rparr>)
   \<and> \<not> prefix (existing_note \<lparr>o_id = 1, o_name = None, o_note = Some (lit ''Prior note '')\<rparr>)
        (new_note \<lparr>o_id = 1, o_name = None, o_note = Some (lit ''Prior note '')\<rparr> (lit ''B''))"
  by (simp add: existing_note_def new_note_def all_whitespace_def strip_def lstrip_def rstrip_def
      is_space_def lit_def code_point_def)

subsection \<open>Sequencing and the requests\<close>

lemma bind_io_Inl: "bind_io (tr, Inl e) f = (tr, Inl e)"
  by (simp add: bind_io_def)

lemma bind_io_Inr: "bind_io (tr, Inr x) f = (tr @ fst (f x), snd (f x))"
  by (simp add: bind_io_def split: prod.splits)

lemma zendesk_request_ok:
  "zendesk_server env method path ps = HttpOk data \<Longrightarrow>
   zendesk_request env method path ps = ([ZendeskCall method path ps], Inr data)"
  by (simp add: zendesk_request_def bind_io_Inr return_io_def)

lemma zendesk_request_failed:
  "zendesk_server env method path ps = HttpFailed st tx \<Longrightarrow>
   zendesk_request env method path ps =
     ([ZendeskCall method path ps, Stderr (ZendeskApiFailed method path st tx)],
      Inl (SysExit (ZendeskApiFailed method path st tx)))"
  by (simp add: zendesk_request_def bind_io_Inr fail_def)

lemma shopify_request_ok:
  "shopify_server env method path json ps = HttpOk data \<Longrightarrow>
   shopify_request env method path json ps = ([ShopifyCall method path json ps], Inr data)"
  by (simp add: shopify_request_def bind_io_Inr return_io_def)

lemma shopify_request_failed:
  "shopify_server env method path json ps = HttpFailed st tx \<Longrightarrow>
   shopify_request env method path json ps =
     ([ShopifyCall method path json ps, Stderr (ShopifyApiFailed method path st tx)],
      Inl (SysExit (ShopifyApiFailed method path st tx)))"
  by (simp add: shopify_request_def bind_io_Inr fail_def)

lemma get_latest_private_comment_ok:
  "zendesk_server env (lit ''GET'') (comments_path tid) [(lit ''sort_order'', lit ''desc'')]
     = HttpOk data \<Longrightarrow>
   get_latest_private_comment env tid =
     ([ZendeskCall (lit ''GET'') (comments_path tid) [(lit ''sort_order'', lit ''desc'')]],
      Inr (first_private (comments_of data)))"
  by (simp add: get_latest_private_comment_def zendesk_request_ok bind_io_Inr return_io_def)

subsection \<open>Selecting the latest private comment\<close>


lemma first_private_None_iff:
  "first_private cs = None \<longleftrightarrow> (\<forall>c\<in>set cs. truthy (public_of c))"
  by (induction cs) auto

lemma first_private_Some:
  "first_private cs = Some (c, t) \<Longrightarrow>
   c \<in> set cs \<and> \<not> truthy (public_of c) \<and> t = c_created_at c"
  by (induction cs) (auto split: if_splits)


lemma not_truthy_public_of:
  "\<not> truthy (public_of c) \<longleftrightarrow> (\<exists>v. c_public c = Some v \<and> \<not> truthy v)"
  by (auto simp: public_of_def split: option.splits)


lemma example_env_zendesk:
  "zendesk_server (example_env cs os) method path ps
     = HttpOk \<lparr>d_comments = Some cs, d_user = Some \<lparr>u_name = Some (lit ''Dana'')\<rparr>\<rparr>"
  by (simp add: example_env_def)

lemma example_env_shopify:
  "shopify_server (example_env cs os) method path json ps = HttpOk \<lparr>d_orders = Some os\<rparr>"
  by (simp add: example_env_def)


text \<open>
  Claim C10, as the script has it: a comment without the public flag counts as public
  and is never selected; a comment that is returned carries a public flag that is false
  in Python's sense, which the values false, null, zero and the empty string, list and
  object all are; a list of comments whose flags are missing or true in that sense
  yields \<open>None\<close>.
\<close>

theorem missing_public_flag_never_selected:
  assumes "zendesk_server env (lit ''GET'') (comments_path tid)
             [(lit ''sort_order'', lit ''desc'')] = HttpOk data"
  shows "(\<forall>c t. snd (get_latest_private_comment env tid) = Inr (Some (c, t)) \<longrightarrow>
            c \<in> set (comments_of data) \<and> (\<exists>v. c_public c = Some v \<and> \<not> truthy v))
         \<and> ((\<forall>c\<in>set (comments_of data).
               c_public c = None \<or> (\<exists>v. c_public c = Some v \<and> truthy v)) \<longrightarrow>
            snd (get_latest_private_comment env tid) = Inr None)"
proof -
  have r: "snd (get_latest_private_comment env tid) = Inr (first_private (comments_of data))"
    using assms by (simp add: get_latest_private_comment_ok)
  have a: "\<forall>c t. snd (get_latest_private_comment env tid) = Inr (Some (c, t)) \<longrightarrow>
            c \<in> set (comments_of data) \<and> (\<exists>v. c_public c = Some v \<and> \<not> truthy v)"
    unfolding r using first_private_Some not_truthy_public_of by auto
  have b: "(\<forall>c\<in>set (comments_of data).
               c_public c = None \<or> (\<exists>v. c_public c = Some v \<and> truthy v)) \<longrightarrow>
            snd (get_latest_private_comment env tid) = Inr None"
    unfolding r by (auto simp: first_private_None_iff public_of_def)
  show ?thesis using a b by blast
qed

text \<open>
  The theorem at a list of an unflagged and a public comment, which yields \<open>None\<close>, and
  at a list where a private comment follows an unflagged one.
\<close>

theorem missing_public_flag_never_selected_witness:
  "snd (get_latest_private_comment (example_env [unflagged_comment, public_comment] []) (PInt 5))
     = Inr None
   \<and> c_public unflagged_comment = None
   \<and> snd (get_latest_private_comment (example_env [unflagged_comment, private_comment] [])
            (PInt 5))
       = Inr (Some (private_comment, Some (lit ''2024-03-01T15:04:00Z'')))
   \<and> c_public private_comment = Some (JBool False)"
proof -
  let ?d = "\<lparr>d_comments = Some [unflagged_comment, public_comment],
             d_user = Some \<lparr>u_name = Some (lit ''Dana'')\<rparr>\<rparr>"
  have a: "\<forall>c\<in>set (comments_of ?d).
             c_public c = None \<or> (\<exists>v. c_public c = Some v \<and> truthy v)"
    by (simp add: comments_of_def public_comment_def unflagged_comment_def)
  have 1: "snd (get_latest_private_comment
                  (example_env [unflagged_comment, public_comment] []) (PInt 5)) = Inr None"
    using missing_public_flag_never_selected
      [OF example_env_zendesk, of "[unflagged_comment, public_comment]" "[]" "PInt 5"] a
    by blast
  have 2: "snd (get_latest_private_comment
                  (example_env [unflagged_comment, private_comment] []) (PInt 5))
       = Inr (Some (private_comment, Some (lit ''2024-03-01T15:04:00Z'')))"
    by (simp add: get_latest_private_comment_ok [OF example_env_zendesk] comments_of_def
        public_of_def unflagged_comment_def private_comment_def)
  show ?thesis using 1 2 by (simp add: unflagged_comment_def private_comment_def)
qed

text \<open>
  Claim C10 as it is worded fails: a comment whose public flag is null is returned, and
  its flag is not the value false.
\<close>

theorem null_public_flag_selected_counterexample:
  "snd (get_latest_private_comment (example_env [public_comment, null_flag_comment] []) (PInt 5))
     = Inr (Some (null_flag_comment, Some (lit ''2024-03-03T08:00:00Z'')))
   \<and> c_public null_flag_comment = Some JNull
   \<and> c_public null_flag_comment \<noteq> Some (JBool False)"
  by (simp add: get_latest_private_comment_ok [OF example_env_zendesk] comments_of_def
      public_of_def public_comment_def null_flag_comment_def)

subsection \<open>Writes to Shopify\<close>

lemma shopify_writes_append [simp]:
  "shopify_writes (xs @ ys) = shopify_writes xs @ shopify_writes ys"
  by (simp add: shopify_writes_def)

lemma shopify_writes_Nil [simp]: "shopify_writes [] = []"
  by (simp add: shopify_writes_def)

lemma writes_print [simp]: "shopify_writes (fst (print m)) = []"
  by (simp add: print_def shopify_writes_def)

lemma writes_fail [simp]: "shopify_writes (fst (fail f)) = []"
  by (simp add: fail_def shopify_writes_def)

lemma writes_zendesk_request [simp]:
  "shopify_writes (fst (zendesk_request env method path ps)) = []"
  by (cases "zendesk_server env method path ps")
    (simp_all add: zendesk_request_failed zendesk_request_ok shopify_writes_def)

lemma writes_bind:
  "shopify_writes (fst (bind_io m f)) =
     shopify_writes (fst m) @ (case snd m of Inl e \<Rightarrow> [] | Inr x \<Rightarrow> shopify_writes (fst (f x)))"
  by (cases m; cases "snd m") (simp_all add: bind_io_Inl bind_io_Inr)

lemma writes_get_latest_private_comment [simp]:
  "shopify_writes (fst (get_latest_private_comment env tid)) = []"
  by (simp add: get_latest_private_comment_def writes_bind return_io_def split: sum.splits)

lemma writes_get_zendesk_user_name [simp]:
  "shopify_writes (fst (get_zendesk_user_name env u)) = []"
  by (simp add: get_zendesk_user_name_def writes_bind return_io_def split: sum.splits)

lemma get_is_no_put: "lit ''GET'' \<noteq> lit ''PUT''"
  by (simp add: lit_def code_point_def)

lemma writes_find_shopify_order_by_name [simp]:
  "shopify_writes (fst (find_shopify_order_by_name env n)) = []"
proof (cases "shopify_server env (lit ''GET'') (lit ''/orders.json'') None [(lit ''name'', n)]")
  case (HttpFailed st tx)
  then show ?thesis
    by (simp add: find_shopify_order_by_name_def shopify_request_failed bind_io_Inl
        shopify_writes_def get_is_no_put)
next
  case (HttpOk data)
  then show ?thesis
    by (simp add: find_shopify_order_by_name_def shopify_request_ok bind_io_Inr return_io_def
        shopify_writes_def get_is_no_put)
qed

lemma guard_fail [simp]: "no_write_before_abort (fail f)"
  by (simp add: no_write_before_abort_def fail_def shopify_writes_def)

lemma guard_raise [simp]: "no_write_before_abort (raise e)"
  by (simp add: no_write_before_abort_def raise_def shopify_writes_def)

lemma guard_bind:
  assumes "shopify_writes (fst m) = []" and "\<And>x. no_write_before_abort (f x)"
  shows "no_write_before_abort (bind_io m f)"
proof (cases m)
  case (Pair tr r)
  show ?thesis
  proof (cases r)
    case (Inl e)
    then show ?thesis using Pair assms(1)
      by (simp add: bind_io_Inl no_write_before_abort_def)
  next
    case (Inr x)
    then show ?thesis using Pair assms(1) assms(2) [of x]
      by (simp add: bind_io_Inr no_write_before_abort_def split: sum.splits)
  qed
qed

lemma append_note_dry_run:
  "append_note_to_shopify_order env ord block True =
     ([Stdout DryRunWouldUpdate, Stdout DryRunRule, Stdout (DryRunNote (new_note ord block)),
       Stdout DryRunRule], Inr ())"
  by (simp add: append_note_to_shopify_order_def)

lemma append_note_write_ok:
  "shopify_server env (lit ''PUT'') (order_path (o_id ord))
     (Some (o_id ord, new_note ord block)) [] = HttpOk data \<Longrightarrow>
   append_note_to_shopify_order env ord block False =
     ([ShopifyCall (lit ''PUT'') (order_path (o_id ord)) (Some (o_id ord, new_note ord block)) [],
       Stdout (UpdatedOrder (o_name ord) (o_id ord))], Inr ())"
  by (simp add: append_note_to_shopify_order_def Let_def shopify_request_ok bind_io_Inr print_def)

lemma append_note_write_failed:
  "shopify_server env (lit ''PUT'') (order_path (o_id ord))
     (Some (o_id ord, new_note ord block)) [] = HttpFailed st tx \<Longrightarrow>
   append_note_to_shopify_order env ord block False =
     ([ShopifyCall (lit ''PUT'') (order_path (o_id ord)) (Some (o_id ord, new_note ord block)) [],
       Stderr (ShopifyApiFailed (lit ''PUT'') (order_path (o_id ord)) st tx)],
      Inl (SysExit (ShopifyApiFailed (lit ''PUT'') (order_path (o_id ord)) st tx)))"
  by (simp add: append_note_to_shopify_order_def Let_def shopify_request_failed bind_io_Inl)

lemma guard_append_note: "no_write_before_abort (append_note_to_shopify_order env ord block dry)"
proof (cases dry)
  case True
  then show ?thesis by (simp add: append_note_dry_run no_write_before_abort_def)
next
  case False
  then show ?thesis
    by (cases "shopify_server env (lit ''PUT'') (order_path (o_id ord))
                 (Some (o_id ord, new_note ord block)) []")
      (simp_all add: append_note_write_ok append_note_write_failed no_write_before_abort_def)
qed

lemma guard_sync: "no_write_before_abort (sync_ticket_to_shopify_note env tid dry)"
  unfolding sync_ticket_to_shopify_note_def Let_def
  by (intro guard_bind writes_print writes_get_latest_private_comment)
    (auto intro!: guard_bind guard_append_note split: option.splits sum.splits)

text \<open>
  Claim C7: with \<open>dry_run\<close> the function only prints, and what it prints is the new note
  of the same computation; its trace has no request at all, so no write. Without
  \<open>dry_run\<close> the trace has exactly one write, the update of the order with that new note.
\<close>

theorem append_note_dry_run_never_writes:
  "append_note_to_shopify_order env ord block True =
     ([Stdout DryRunWouldUpdate, Stdout DryRunRule, Stdout (DryRunNote (new_note ord block)),
       Stdout DryRunRule], Inr ())
   \<and> shopify_writes (fst (append_note_to_shopify_order env ord block True)) = []
   \<and> shopify_writes (fst (append_note_to_shopify_order env ord block False)) =
       [ShopifyCall (lit ''PUT'') (order_path (o_id ord)) (Some (o_id ord, new_note ord block)) []]"
proof -
  have w: "shopify_writes (fst (append_note_to_shopify_order env ord block False)) =
       [ShopifyCall (lit ''PUT'') (order_path (o_id ord)) (Some (o_id ord, new_note ord block)) []]"
    by (cases "shopify_server env (lit ''PUT'') (order_path (o_id ord))
                 (Some (o_id ord, new_note ord block)) []")
      (simp_all add: append_note_write_ok append_note_write_failed shopify_writes_def)
  show ?thesis using w by (simp add: append_note_dry_run shopify_writes_def)
qed

lemma show_nat_digit: "n < 10 \<Longrightarrow> show_nat n = [digit_char n]"
  by (simp add: show_nat.simps)

lemma show_nat_step: "10 \<le> n \<Longrightarrow> show_nat n = show_nat (n div 10) @ [digit_char (n mod 10)]"
  by (subst show_nat.simps) simp

text \<open>The theorem at the order 42 with the note \<open>"Prior note\n"\<close>.\<close>

theorem append_note_dry_run_never_writes_witness:
  "fst (append_note_to_shopify_order (example_env [] []) example_order (lit ''B'') True) =
     [Stdout DryRunWouldUpdate, Stdout DryRunRule, Stdout (DryRunNote (lit ''Prior note\<newline>\<newline>B'')),
      Stdout DryRunRule]
   \<and> shopify_writes
        (fst (append_note_to_shopify_order (example_env [] []) example_order (lit ''B'') False)) =
       [ShopifyCall (lit ''PUT'') (lit ''/orders/42.json'')
          (Some (42, lit ''Prior note\<newline>\<newline>B'')) []]"
proof -
  have n: "new_note example_order (lit ''B'') = lit ''Prior note\<newline>\<newline>B''"
    by (simp add: new_note_def existing_note_def example_order_def strip_def lstrip_def rstrip_def
        is_space_def lit_def code_point_def)
  have "show_nat 42 = lit ''42''"
    by (simp add: show_nat_step [of 42] show_nat_digit digit_char_def lit_def code_point_def)
  then have p: "order_path 42 = lit ''/orders/42.json''"
    by (simp add: order_path_def show_int_def lit_def)
  have i: "o_id example_order = 42" by (simp add: example_order_def)
  show ?thesis
    using append_note_dry_run_never_writes [of "example_env [] []" example_order "lit ''B''"]
    by (simp add: n p i)
qed

text \<open>
  Claim C8: a run that ends in one of the failures "no private comment", "empty body",
  "no order name" or "order not found" has sent no write to Shopify.
\<close>

theorem sync_failure_before_write:
  assumes "sync_ticket_to_shopify_note env tid dry = (tr, Inl (SysExit f))"
    and "f = NoPrivateComments tid \<or> f = EmptyBody \<or> f = OrderNameNotFound
         \<or> (\<exists>name. f = OrderNotFound name)"
  shows "shopify_writes tr = []"
proof -
  have "\<not> write_failed (SysExit f)" using assms(2) by auto
  then show ?thesis
    using guard_sync [of env tid dry] assms(1) by (simp add: no_write_before_abort_def)
qed

lemma refund_body_order_name:
  "extract_shopify_order_name example_platform (lit ''Refund issued for A273302'')
     = Some (lit ''A273302'')"
proof -
  let ?s = "lit ''Refund issued for A273302''"
  have t: "order_token_at example_platform ?s 18"
    by (simp add: order_token_at_def lit_def example_classes is_word_def code_point_def)
  have "\<not> order_token_at example_platform ?s j" if "j < 18" for j
  proof -
    have "?s ! j \<noteq> code_point (CHR ''A'')"
      using that by (simp add: lit_def code_point_def nth_Cons split: nat.splits)
    then show ?thesis by (simp add: order_token_at_def)
  qed
  then have l: "\<forall>j<18. \<not> order_token_at example_platform ?s j" by blast
  have "re_search example_platform ?s = Some 18"
    using t l by (simp add: re_search_Some_iff)
  then show ?thesis by (simp add: extract_shopify_order_name_def lit_def)
qed

text \<open>The theorem at a run whose order lookup finds nothing.\<close>

theorem sync_failure_before_write_witness:
  "snd (sync_ticket_to_shopify_note (example_env [public_comment, private_comment] []) (PInt 5) False)
     = Inl (SysExit (OrderNotFound (lit ''A273302'')))
   \<and> shopify_writes
        (fst (sync_ticket_to_shopify_note (example_env [public_comment, private_comment] [])
                (PInt 5) False))
       = []"
proof -
  let ?env = "example_env [public_comment, private_comment] []"
  have g: "get_latest_private_comment ?env (PInt 5) =
     ([ZendeskCall (lit ''GET'') (comments_path (PInt 5)) [(lit ''sort_order'', lit ''desc'')]],
      Inr (Some (private_comment, Some (lit ''2024-03-01T15:04:00Z''))))"
    by (simp add: get_latest_private_comment_ok [OF example_env_zendesk] comments_of_def
        public_of_def public_comment_def private_comment_def)
  have b: "strip (body_of private_comment) = lit ''Refund issued for A273302''"
    by (simp add: body_of_def private_comment_def strip_def lstrip_def rstrip_def is_space_def
        lit_def code_point_def)
  have b': "lit ''Refund issued for A273302'' \<noteq> []" by (simp add: lit_def)
  have u: "get_zendesk_user_name ?env (author_of private_comment) =
     ([ZendeskCall (lit ''GET'') (lit ''/users/'' @ py_str (author_of private_comment) @ lit ''.json'') []],
      Inr (lit ''Dana''))"
    by (simp add: get_zendesk_user_name_def zendesk_request_ok [OF example_env_zendesk]
        bind_io_Inr return_io_def lit_def)
  have py: "python ?env = example_platform" by (simp add: example_env_def)
  have f: "find_shopify_order_by_name ?env (lit ''A273302'') =
     ([ShopifyCall (lit ''GET'') (lit ''/orders.json'') None [(lit ''name'', lit ''A273302'')]],
      Inr None)"
    by (simp add: find_shopify_order_by_name_def shopify_request_ok [OF example_env_shopify]
        bind_io_Inr return_io_def)
  have s: "snd (sync_ticket_to_shopify_note ?env (PInt 5) False)
             = Inl (SysExit (OrderNotFound (lit ''A273302'')))"
    by (simp add: sync_ticket_to_shopify_note_def print_def bind_io_Inr bind_io_Inl g b b' u py
        refund_body_order_name f fail_def)
  then have "sync_ticket_to_shopify_note ?env (PInt 5) False
          = (fst (sync_ticket_to_shopify_note ?env (PInt 5) False),
             Inl (SysExit (OrderNotFound (lit ''A273302''))))"
    by (metis prod.collapse)
  then have "shopify_writes (fst (sync_ticket_to_shopify_note ?env (PInt 5) False)) = []"
    by (rule sync_failure_before_write) simp
  then show ?thesis using s by simp
qed

text \<open>
  Claim C9: when the selected private comment has an empty or whitespace-only body, the
  run fails with "empty body" right after fetching the comments: it has printed its
  first line, asked Zendesk for the comments and nothing else.
\<close>

theorem sync_empty_body_fails_first:
  assumes "zendesk_server env (lit ''GET'') (comments_path tid)
             [(lit ''sort_order'', lit ''desc'')] = HttpOk data"
    and "first_private (comments_of data) = Some (c, t)"
    and "all_whitespace (body_of c)"
  shows "sync_ticket_to_shopify_note env tid dry =
           ([Stdout (Syncing tid),
             ZendeskCall (lit ''GET'') (comments_path tid) [(lit ''sort_order'', lit ''desc'')],
             Stderr EmptyBody],
            Inl (SysExit EmptyBody))"
proof -
  have b: "strip (body_of c) = []" using assms(3) by (simp add: strip_Nil_iff)
  show ?thesis
    by (simp add: sync_ticket_to_shopify_note_def print_def bind_io_Inr
        get_latest_private_comment_ok [OF assms(1)] assms(2) b fail_def)
qed

text \<open>The theorem at a ticket whose latest private comment is blank.\<close>

theorem sync_empty_body_fails_first_witness:
  "sync_ticket_to_shopify_note (example_env [public_comment, blank_private_comment] [example_order])
     (PInt 5) False =
     ([Stdout (Syncing (PInt 5)),
       ZendeskCall (lit ''GET'') (lit ''/tickets/5/comments.json'')
         [(lit ''sort_order'', lit ''desc'')],
       Stderr EmptyBody],
      Inl (SysExit EmptyBody))"
proof -
  let ?d = "\<lparr>d_comments = Some [public_comment, blank_private_comment],
             d_user = Some \<lparr>u_name = Some (lit ''Dana'')\<rparr>\<rparr>"
  have f: "first_private (comments_of ?d)
             = Some (blank_private_comment, c_created_at blank_private_comment)"
    by (simp add: comments_of_def public_of_def public_comment_def blank_private_comment_def)
  have w: "all_whitespace (body_of blank_private_comment)"
    by (simp add: all_whitespace_def body_of_def blank_private_comment_def is_space_def
        lit_def code_point_def)
  have "show_int 5 = lit ''5''"
    by (simp add: show_int_def show_nat_digit digit_char_def lit_def code_point_def)
  then have p: "comments_path (PInt 5) = lit ''/tickets/5/comments.json''"
    by (simp add: comments_path_def lit_def)
  show ?thesis
    using sync_empty_body_fails_first
      [OF example_env_zendesk f w, of "[example_order]" "PInt 5" False]
    by (simp add: p)
qed

subsection \<open>Building the note block\<close>

lemma show_nat_four_digits:
  assumes "1000 \<le> n" "n \<le> 9999"
  shows "show_nat n = [digit_char (n div 1000), digit_char (n div 100 mod 10),
                       digit_char (n div 10 mod 10), digit_char (n mod 10)]"
proof -
  have a: "show_nat n = show_nat (n div 10) @ [digit_char (n mod 10)]"
    using assms by (simp add: show_nat_step)
  have b: "show_nat (n div 10) = show_nat (n div 100) @ [digit_char (n div 10 mod 10)]"
    using assms show_nat_step [of "n div 10"] by (simp add: div_mult2_eq [symmetric])
  have c: "show_nat (n div 100) = show_nat (n div 1000) @ [digit_char (n div 100 mod 10)]"
    using assms show_nat_step [of "n div 100"] by (simp add: div_mult2_eq [symmetric])
  have d: "show_nat (n div 1000) = [digit_char (n div 1000)]"
    using assms by (simp add: show_nat_digit)
  show ?thesis by (simp add: a b c d)
qed


lemma show_nat_2024: "show_nat 2024 = lit ''2024''"
  by (simp add: show_nat_four_digits digit_char_def lit_def code_point_def)

lemma show_int_123456: "show_int 123456 = lit ''123456''"
  by (simp add: show_int_def show_nat_step [of 123456] show_nat_step [of 12345]
      show_nat_four_digits digit_char_def lit_def code_point_def)

lemma parse_int_2: "parse_int [a, b] =
  (if is_ascii_digit a \<and> is_ascii_digit b then Some (10 * (a - 48) + (b - 48)) else None)"
  by (simp add: parse_int_def digits_value_def)

lemma parse_int_4: "parse_int [a, b, c, d] =
  (if is_ascii_digit a \<and> is_ascii_digit b \<and> is_ascii_digit c \<and> is_ascii_digit d
   then Some (10 * (10 * (10 * (a - 48) + (b - 48)) + (c - 48)) + (d - 48))
   else None)"
  by (simp add: parse_int_def digits_value_def)

lemma replace_Z_example:
  "replace_Z (lit ''2024-03-01T15:04:00Z'') = lit ''2024-03-01T15:04:00+00:00''"
  by (simp add: replace_Z_def lit_def code_point_def)

lemma parse_offset_zero: "parse_offset (lit ''+00:00'') = Some 0"
  by (simp add: parse_offset_def lit_def code_point_def slice_def parse_int_2 is_ascii_digit_def)


lemma fromisoformat_common_example:
  "fromisoformat_common (lit ''2024-03-01T15:04:00+00:00'') =
   Some \<lparr>dt_year = 2024, dt_month = 3, dt_day = 1, dt_hour = 15, dt_minute = 4,
         dt_second = 0, dt_microsecond = 0, dt_utcoffset = Some 0\<rparr>"
proof -
  have o: "drop 19 (lit ''2024-03-01T15:04:00+00:00'') = lit ''+00:00''"
    by (simp add: lit_def)
  show ?thesis
    unfolding fromisoformat_common_def o parse_offset_zero
    by (simp add: lit_def code_point_def slice_def parse_int_2 parse_int_4 is_ascii_digit_def
        valid_fields_def days_in_month_def days_in_month_table_def)
qed


lemma strip_hello_world: "strip (lit ''  Hello world  '') = lit ''Hello world''"
  by (simp add: strip_def lstrip_def rstrip_def is_space_def lit_def code_point_def)

text \<open>
  Claim C5: for the ticket 123456, the agent Dana, the timestamp 2024-03-01T15:04:00Z and
  the body \<open>"  Hello world  "\<close> the block is the header line, a blank line, the body
  without its surrounding whitespace, a blank line, the line \<open>---\<close> and a newline. The
  clock, the local time zone and the version of Python play no part.
\<close>

theorem build_note_block_example:
  "build_note_block pf (PInt 123456) (lit ''Dana'') (Some (lit ''2024-03-01T15:04:00Z''))
     (lit ''  Hello world  '')
     = Inr (lit ''#123456 | Dana | 2024-03-01 15:04 UTC\<newline>\<newline>Hello world\<newline>\<newline>---\<newline>'')"
proof -
  let ?d = "\<lparr>dt_year = 2024, dt_month = 3, dt_day = 1, dt_hour = 15, dt_minute = 4,
             dt_second = 0, dt_microsecond = 0, dt_utcoffset = Some 0\<rparr>"
  have p: "parse_created_at pf (Some (lit ''2024-03-01T15:04:00Z'')) = Some ?d"
    by (simp add: parse_created_at_def replace_Z_example fromisoformat_def
        fromisoformat_common_example)
  have a: "astimezone_utc pf ?d = Inr ?d"
    by (simp add: astimezone_utc_def)
  have f: "strftime ?d = lit ''2024-03-01 15:04 UTC''"
    by (simp add: strftime_def show_nat_2024 pad2_def digit_char_def lit_def code_point_def)
  have "build_note_block pf (PInt 123456) (lit ''Dana'') (Some (lit ''2024-03-01T15:04:00Z''))
          (lit ''  Hello world  '')
        = Inr (lit ''#'' @ lit ''123456'' @ lit '' | '' @ lit ''Dana'' @ lit '' | ''
               @ lit ''2024-03-01 15:04 UTC'' @ lit ''\<newline>\<newline>'' @ lit ''Hello world''
               @ lit ''\<newline>\<newline>---\<newline>'')"
    unfolding build_note_block_def p Let_def
    by (simp only: option.case a sum.case f py_str.simps show_int_123456 strip_hello_world
        append_assoc)
  then show ?thesis by (simp add: lit_def)
qed








end
